theory Spec2Isabelle
  imports Complex_Main
begin

section \<open>Python strings\<close>

text \<open>
  The pipeline works on Python \<open>str\<close> values. A string is modelled as a \<^typ>\<open>string\<close>,
  its characters read as the code points 0 to 255 (Latin-1). The character classes below are
  the ones Python's \<open>str.isspace\<close>, \<open>str.lower\<close> and the \<open>re\<close> classes \<open>\\s\<close>, \<open>\\d\<close>, \<open>\\w\<close>
  have on that range.
\<close>

definition code :: "char \<Rightarrow> nat" where
  "code c = of_char c"

text \<open>\<open>\\s\<close> and \<open>str.isspace\<close>: tab to carriage return, the four separators 28 to 31, the
  space, NEL and the no-break space.\<close>

definition is_space :: "char \<Rightarrow> bool" where
  "is_space c = ((9 \<le> code c \<and> code c \<le> 13) \<or> (28 \<le> code c \<and> code c \<le> 32)
     \<or> code c = 133 \<or> code c = 160)"

text \<open>\<open>\\d\<close>: the ten decimal digits.\<close>

definition is_digit :: "char \<Rightarrow> bool" where
  "is_digit c = (48 \<le> code c \<and> code c \<le> 57)"

text \<open>\<open>\\w\<close>: letters, digits, the underscore, and the alphanumeric characters of the upper
  half of Latin-1.\<close>

definition is_word :: "char \<Rightarrow> bool" where
  "is_word c = ((48 \<le> code c \<and> code c \<le> 57) \<or> (65 \<le> code c \<and> code c \<le> 90) \<or> code c = 95
     \<or> (97 \<le> code c \<and> code c \<le> 122)
     \<or> code c = 170 \<or> code c = 178 \<or> code c = 179 \<or> code c = 181 \<or> code c = 185
     \<or> code c = 186 \<or> code c = 188 \<or> code c = 189 \<or> code c = 190
     \<or> (192 \<le> code c \<and> code c \<le> 214) \<or> (216 \<le> code c \<and> code c \<le> 246)
     \<or> 248 \<le> code c)"

text \<open>\<open>str.lower\<close>, one character at a time.\<close>

definition lower_char :: "char \<Rightarrow> char" where
  "lower_char c = (if (65 \<le> code c \<and> code c \<le> 90) \<or> (192 \<le> code c \<and> code c \<le> 222 \<and> code c \<noteq> 215)
     then char_of (code c + 32) else c)"

definition lower :: "string \<Rightarrow> string" where
  "lower s = map lower_char s"

text \<open>\<open>s.startswith(p)\<close>.\<close>

fun startswith :: "string \<Rightarrow> string \<Rightarrow> bool" where
  "startswith s [] = True"
| "startswith [] (p # ps) = False"
| "startswith (c # cs) (p # ps) = (c = p \<and> startswith cs ps)"

text \<open>\<open>p in s\<close> for two strings.\<close>

fun contains :: "string \<Rightarrow> string \<Rightarrow> bool" where
  "contains [] p = (p = [])"
| "contains (c # cs) p = (startswith (c # cs) p \<or> contains cs p)"

text \<open>\<open>s.replace(old, new)\<close>: the occurrences of \<open>old\<close> are found from the left and do not
  overlap. The counter is the number of characters of the current occurrence still to be
  skipped. With an empty \<open>old\<close> Python puts \<open>new\<close> before every character and at the end.\<close>

fun replace_from :: "string \<Rightarrow> string \<Rightarrow> nat \<Rightarrow> string \<Rightarrow> string" where
  "replace_from old new k [] = []"
| "replace_from old new k (c # cs) =
     (if 0 < k then replace_from old new (k - 1) cs
      else if startswith (c # cs) old then new @ replace_from old new (length old - 1) cs
      else c # replace_from old new 0 cs)"

definition replace :: "string \<Rightarrow> string \<Rightarrow> string \<Rightarrow> string" where
  "replace old new s =
     (if old = [] then new @ concat (map (\<lambda>c. c # new) s) else replace_from old new 0 s)"

text \<open>\<open>s.strip()\<close>.\<close>

definition lstrip :: "string \<Rightarrow> string" where
  "lstrip s = dropWhile is_space s"

definition rstrip :: "string \<Rightarrow> string" where
  "rstrip s = rev (dropWhile is_space (rev s))"

definition strip :: "string \<Rightarrow> string" where
  "strip s = rstrip (lstrip s)"

text \<open>\<open>s.split()\<close>: the maximal runs of non-space characters. The accumulator is the run
  being read, reversed.\<close>

fun split_from :: "string \<Rightarrow> string \<Rightarrow> string list" where
  "split_from acc [] = (if acc = [] then [] else [rev acc])"
| "split_from acc (c # cs) =
     (if is_space c then (if acc = [] then split_from [] cs else rev acc # split_from [] cs)
      else split_from (c # acc) cs)"

definition split :: "string \<Rightarrow> string list" where
  "split s = split_from [] s"

text \<open>\<open>sep.join(parts)\<close>.\<close>

fun join :: "string \<Rightarrow> string list \<Rightarrow> string" where
  "join sep [] = []"
| "join sep [p] = p"
| "join sep (p # q # ps) = p @ sep @ join sep (q # ps)"

text \<open>\<open>s.split('/')[0]\<close>: the part before the first slash.\<close>

definition before_slash :: "string \<Rightarrow> string" where
  "before_slash s = takeWhile (\<lambda>c. c \<noteq> CHR ''/'') s"

section \<open>Domain extraction\<close>

text \<open>\<open>DataProcessor.extract_domain_from_url\<close>, on a string. The two \<open>re.sub\<close> calls have
  patterns anchored by \<open>^\<close>, so each removes at most one match, at the start.\<close>

definition sub_scheme :: "string \<Rightarrow> string" where
  "sub_scheme url =
     (if startswith url ''https://'' then drop 8 url
      else if startswith url ''http://'' then drop 7 url
      else url)"

definition sub_www :: "string \<Rightarrow> string" where
  "sub_www d = (if startswith d ''www.'' then drop 4 d else d)"

definition extract_domain_from_url :: "string \<Rightarrow> string" where
  "extract_domain_from_url url =
     (if url = [] then [] else sub_www (before_slash (sub_scheme url)))"

text \<open>\<open>EmailFinder._extract_domain\<close>, on a string: \<open>str.replace\<close> removes every occurrence.\<close>

definition extract_domain :: "string \<Rightarrow> string" where
  "extract_domain url =
     (if url = [] then []
      else replace ''www.'' [] (before_slash (replace ''http://'' [] (replace ''https://'' [] url))))"

section \<open>Python values and records\<close>

text \<open>
  A RawPosting and a Lead are Python dictionaries from field names to scalar values. The
  values that occur are strings, integers and \<open>None\<close>.
\<close>

datatype pyval = PyNone | PyStr string | PyInt int

type_synonym pydict = "string \<rightharpoonup> pyval"

datatype error = TypeError | AttributeError | ValueError

text \<open>\<open>d.get(k)\<close> and \<open>d.get(k, default)\<close>.\<close>

definition get :: "pydict \<Rightarrow> string \<Rightarrow> pyval" where
  "get d k = (case d k of None \<Rightarrow> PyNone | Some v \<Rightarrow> v)"

definition get_default :: "pydict \<Rightarrow> string \<Rightarrow> pyval \<Rightarrow> pyval" where
  "get_default d k v = (case d k of None \<Rightarrow> v | Some x \<Rightarrow> x)"

text \<open>The truth value Python gives a scalar in a condition.\<close>

fun truthy :: "pyval \<Rightarrow> bool" where
  "truthy PyNone = False"
| "truthy (PyStr s) = (s \<noteq> [])"
| "truthy (PyInt n) = (n \<noteq> 0)"

section \<open>DataProcessor\<close>

definition company_suffixes :: "string list" where
  "company_suffixes =
     [''Inc'', ''LLC'', ''Ltd'', ''LTD'', ''Corp'', ''Corporation'', ''Company'', ''Co'',
      ''Limited'', ''Incorporated'', ''Group'', ''Partners'', ''Associates'',
      ''International'', ''Intl'', ''Technologies'', ''Tech'', ''Software'', ''Systems'',
      ''Solutions'', ''Services'', ''Enterprises'', ''Ventures'', ''Holdings'']"

subsection \<open>Employee-count filter\<close>

text \<open>\<open>re.findall(r'\\d+', s)[0]\<close>: the first maximal run of digits, empty when \<open>findall\<close>
  returns no match.\<close>

definition first_number :: "string \<Rightarrow> string" where
  "first_number s = takeWhile is_digit (dropWhile (\<lambda>c. \<not> is_digit c) s)"

text \<open>\<open>int\<close> on a string of decimal digits. (Recent Python versions refuse a string of more
  than 4300 digits with \<open>ValueError\<close>, and the record is then skipped; the model converts
  every string of digits.)\<close>

definition int_of_digits :: "string \<Rightarrow> int" where
  "int_of_digits ds = foldl (\<lambda>n c. 10 * n + (int (code c) - 48)) 0 ds"

text \<open>The local \<open>employee_count\<close> of one loop iteration after the conversion, or \<open>None\<close>
  where the iteration ends in \<open>continue\<close>. The converted number is only compared with the
  threshold: the record itself is not changed.\<close>

definition employee_count_of :: "pydict \<Rightarrow> int option" where
  "employee_count_of job =
     (case get job ''employee_count'' of
        PyNone \<Rightarrow> None
      | PyStr s \<Rightarrow> (if first_number s = [] then None else Some (int_of_digits (first_number s)))
      | PyInt n \<Rightarrow> Some n)"

fun filter_by_employee_count :: "int \<Rightarrow> pydict list \<Rightarrow> pydict list" where
  "filter_by_employee_count min_employee_count [] = []"
| "filter_by_employee_count min_employee_count (job # jobs) =
     (case employee_count_of job of
        None \<Rightarrow> filter_by_employee_count min_employee_count jobs
      | Some n \<Rightarrow>
          (if n \<ge> min_employee_count
           then job # filter_by_employee_count min_employee_count jobs
           else filter_by_employee_count min_employee_count jobs))"

subsection \<open>Batch deduplication\<close>

fun remove_duplicates_from :: "pyval set \<Rightarrow> pydict list \<Rightarrow> pydict list" where
  "remove_duplicates_from seen_urls [] = []"
| "remove_duplicates_from seen_urls (job # jobs) =
     (let company_url = get job ''company_linkedin_url'' in
      if \<not> truthy company_url then remove_duplicates_from seen_urls jobs
      else if company_url \<notin> seen_urls
        then job # remove_duplicates_from (insert company_url seen_urls) jobs
      else remove_duplicates_from seen_urls jobs)"

definition remove_duplicates :: "pydict list \<Rightarrow> pydict list" where
  "remove_duplicates job_data = remove_duplicates_from {} job_data"

subsection \<open>Company-name cleaning\<close>

text \<open>A pattern of letters matched at the head of the text with \<open>re.IGNORECASE\<close>.\<close>

fun ci_startswith :: "string \<Rightarrow> string \<Rightarrow> bool" where
  "ci_startswith s [] = True"
| "ci_startswith [] (p # ps) = False"
| "ci_startswith (c # cs) (p # ps) = (lower_char c = lower_char p \<and> ci_startswith cs ps)"

text \<open>The \<open>\\b\<close> after a match: the text ends there or goes on with a non-word character.\<close>

fun boundary_after :: "string \<Rightarrow> bool" where
  "boundary_after [] = True"
| "boundary_after (c # cs) = (\<not> is_word c)"

text \<open>
  \<open>re.sub(r'\\bSUFFIX\\b', '', s, flags=re.IGNORECASE)\<close> for a suffix made of letters. The
  text is read from the left; \<open>prev_word\<close> says whether the character before the current
  one, in the text as given, is a word character, and the counter is the number of
  characters of the current match still to be dropped. A match starts where the previous
  character is not a word character, the suffix follows ignoring case, and the text after
  it ends or goes on with a non-word character.
\<close>

fun sub_suffix_from :: "string \<Rightarrow> bool \<Rightarrow> nat \<Rightarrow> string \<Rightarrow> string" where
  "sub_suffix_from suffix prev_word k [] = []"
| "sub_suffix_from suffix prev_word k (c # cs) =
     (if 0 < k then sub_suffix_from suffix (is_word c) (k - 1) cs
      else if \<not> prev_word \<and> ci_startswith (c # cs) suffix
              \<and> boundary_after (drop (length suffix) (c # cs))
        then sub_suffix_from suffix (is_word c) (length suffix - 1) cs
      else c # sub_suffix_from suffix (is_word c) 0 cs)"

definition sub_suffix :: "string \<Rightarrow> string \<Rightarrow> string" where
  "sub_suffix suffix s = sub_suffix_from suffix False 0 s"

text \<open>\<open>re.sub(r'\\s+', ' ', s)\<close>: every maximal run of white space becomes one space. The
  flag says whether the previous character was white space.\<close>

fun collapse_from :: "bool \<Rightarrow> string \<Rightarrow> string" where
  "collapse_from in_run [] = []"
| "collapse_from in_run (c # cs) =
     (if is_space c then (if in_run then collapse_from True cs else CHR '' '' # collapse_from True cs)
      else c # collapse_from False cs)"

definition collapse_spaces :: "string \<Rightarrow> string" where
  "collapse_spaces s = collapse_from False s"

text \<open>\<open>re.sub(r'[,\\s]+$', '', s)\<close>: the trailing run of commas and white space goes.\<close>

definition strip_trailing :: "string \<Rightarrow> string" where
  "strip_trailing s = rev (dropWhile (\<lambda>c. c = CHR '','' \<or> is_space c) (rev s))"

definition clean_company_name :: "string \<Rightarrow> string" where
  "clean_company_name company_name =
     (if company_name = [] then company_name
      else strip_trailing (collapse_spaces (strip
             (foldl (\<lambda>name suffix. sub_suffix suffix name) company_name company_suffixes))))"

text \<open>One iteration of \<open>_clean_company_names\<close>: the record gets the cleaned and the original
  name. \<open>re.sub\<close> on a value that is not a string raises \<open>TypeError\<close>.\<close>

definition clean_job :: "pydict \<Rightarrow> error + pydict" where
  "clean_job job =
     (let company_name = get_default job ''company_name'' (PyStr []) in
      if \<not> truthy company_name then Inr job
      else (case company_name of
              PyStr s \<Rightarrow> Inr (job(''company_name_cleaned'' \<mapsto> PyStr (clean_company_name s),
                                  ''company_name_original'' \<mapsto> company_name))
            | _ \<Rightarrow> Inl TypeError))"

fun clean_company_names :: "pydict list \<Rightarrow> error + pydict list" where
  "clean_company_names [] = Inr []"
| "clean_company_names (job # jobs) =
     (case clean_job job of
        Inl e \<Rightarrow> Inl e
      | Inr job' \<Rightarrow>
          (case clean_company_names jobs of Inl e \<Rightarrow> Inl e | Inr jobs' \<Rightarrow> Inr (job' # jobs')))"

subsection \<open>Required fields\<close>

definition required_fields :: "string list" where
  "required_fields = [''company_name'', ''job_poster_name'', ''company_website'']"

definition missing_fields :: "pydict \<Rightarrow> string list" where
  "missing_fields job = filter (\<lambda>field. \<not> truthy (get job field)) required_fields"

definition validate_required_fields :: "pydict list \<Rightarrow> pydict list" where
  "validate_required_fields job_data = filter (\<lambda>job. missing_fields job = []) job_data"

definition filter_and_clean :: "int \<Rightarrow> pydict list \<Rightarrow> error + pydict list" where
  "filter_and_clean min_employee_count job_data =
     (case clean_company_names (remove_duplicates
             (filter_by_employee_count min_employee_count job_data)) of
        Inl e \<Rightarrow> Inl e
      | Inr cleaned_data \<Rightarrow> Inr (validate_required_fields cleaned_data))"

subsection \<open>Formatting a lead\<close>

text \<open>\<open>extract_name_parts\<close> on a string: (first name, last name).\<close>

definition extract_name_parts :: "string \<Rightarrow> string \<times> string" where
  "extract_name_parts full_name =
     (if full_name = [] then ([], [])
      else (let name_parts = map strip (filter (\<lambda>part. strip part \<noteq> []) (split full_name)) in
            if length name_parts = 0 then ([], [])
            else if length name_parts = 1 then (hd name_parts, [])
            else (hd name_parts, join '' '' (tl name_parts))))"

text \<open>The two helpers as \<open>format_lead_data\<close> calls them, on a value taken from the record:
  a false value is answered before any string operation, and a true value that is not a
  string has no \<open>split\<close> method and is no argument for \<open>re.sub\<close>.\<close>

definition name_parts_of :: "pyval \<Rightarrow> error + string \<times> string" where
  "name_parts_of v =
     (if \<not> truthy v then Inr ([], [])
      else (case v of PyStr s \<Rightarrow> Inr (extract_name_parts s) | _ \<Rightarrow> Inl AttributeError))"

definition domain_of :: "pyval \<Rightarrow> error + string" where
  "domain_of v =
     (if \<not> truthy v then Inr []
      else (case v of PyStr s \<Rightarrow> Inr (extract_domain_from_url s) | _ \<Rightarrow> Inl TypeError))"

definition format_lead_data :: "pydict \<Rightarrow> error + pydict" where
  "format_lead_data job_data =
     (case name_parts_of (get_default job_data ''job_poster_name'' (PyStr [])) of
        Inl e \<Rightarrow> Inl e
      | Inr (first_name, last_name) \<Rightarrow>
          (case domain_of (get_default job_data ''company_website'' (PyStr [])) of
             Inl e \<Rightarrow> Inl e
           | Inr company_domain \<Rightarrow> Inr (map_of
               [(''first_name'', PyStr first_name),
                (''last_name'', PyStr last_name),
                (''full_name'', get_default job_data ''job_poster_name'' (PyStr [])),
                (''title'', get_default job_data ''job_poster_title'' (PyStr [])),
                (''company_name'', get_default job_data ''company_name_cleaned''
                                     (get_default job_data ''company_name'' (PyStr []))),
                (''company_name_original'', get_default job_data ''company_name_original''
                                     (get_default job_data ''company_name'' (PyStr []))),
                (''company_website'', get_default job_data ''company_website'' (PyStr [])),
                (''company_domain'', PyStr company_domain),
                (''company_linkedin_url'', get_default job_data ''company_linkedin_url'' (PyStr [])),
                (''job_title'', get_default job_data ''job_title'' (PyStr [])),
                (''job_location'', get_default job_data ''job_location'' (PyStr [])),
                (''employee_count'', get_default job_data ''employee_count'' (PyStr [])),
                (''company_industry'', get_default job_data ''company_industry'' (PyStr [])),
                (''job_url'', get_default job_data ''job_url'' (PyStr [])),
                (''posted_date'', get_default job_data ''posted_date'' (PyStr [])),
                (''scraped_at'', get_default job_data ''scraped_at'' (PyStr [])),
                (''email'', PyStr []),
                (''email_confidence'', PyStr []),
                (''compliment'', PyStr []),
                (''status'', PyStr ''new'')])))"

section \<open>GoogleSheetsManager: deduplication against the persisted store\<close>

text \<open>\<open>lead.get(key, '').lower()\<close>: a value that is not a string has no \<open>lower\<close> method.\<close>

definition get_lower :: "pydict \<Rightarrow> string \<Rightarrow> error + string" where
  "get_lower lead key =
     (case get_default lead key (PyStr []) of
        PyStr s \<Rightarrow> Inr (lower s)
      | _ \<Rightarrow> Inl AttributeError)"

text \<open>The composite key \<open>f"{email}_{company}"\<close>.\<close>

definition combination :: "string \<Rightarrow> string \<Rightarrow> string" where
  "combination email company = email @ ''_'' @ company"

text \<open>The two keys of a lead, as both loops of \<open>check_duplicate_leads\<close> read them:
  \<open>email = lead.get('email', '').lower()\<close>, then
  \<open>company = lead.get('company_name', '').lower()\<close>.\<close>

definition identity :: "pydict \<Rightarrow> error + string \<times> string" where
  "identity lead =
     (case get_lower lead ''email'' of
        Inl e \<Rightarrow> Inl e
      | Inr email \<Rightarrow>
          (case get_lower lead ''company_name'' of
             Inl e \<Rightarrow> Inl e
           | Inr company \<Rightarrow> Inr (email, company)))"

text \<open>The first loop of \<open>check_duplicate_leads\<close>: the set of the composite keys of the
  existing leads that have both an email and a company name.\<close>

fun existing_combinations_from :: "string set \<Rightarrow> pydict list \<Rightarrow> error + string set" where
  "existing_combinations_from existing_combinations [] = Inr existing_combinations"
| "existing_combinations_from existing_combinations (lead # leads) =
     (case identity lead of
        Inl e \<Rightarrow> Inl e
      | Inr (email, company) \<Rightarrow>
          existing_combinations_from
            (if email \<noteq> [] \<and> company \<noteq> []
             then insert (combination email company) existing_combinations
             else existing_combinations) leads)"

text \<open>\<open>[l.get('company_name', '').lower() for l in existing_leads]\<close>.\<close>

fun existing_company_names :: "pydict list \<Rightarrow> error + string list" where
  "existing_company_names [] = Inr []"
| "existing_company_names (l # ls) =
     (case get_lower l ''company_name'' of
        Inl e \<Rightarrow> Inl e
      | Inr company \<Rightarrow>
          (case existing_company_names ls of Inl e \<Rightarrow> Inl e | Inr names \<Rightarrow> Inr (company # names)))"

text \<open>The second loop: the state is the set of composite keys, the result the leads
  appended to \<open>unique_leads\<close>, in order. Only the branch of a lead with an email and a
  company name adds to the set. The other branch appends the lead when
  \<open>company and company not in [...]\<close> holds, and the list of names is only built when
  \<open>company\<close> is not empty.\<close>

fun filter_duplicates :: "pydict list \<Rightarrow> string set \<Rightarrow> pydict list \<Rightarrow> error + pydict list" where
  "filter_duplicates existing_leads existing_combinations [] = Inr []"
| "filter_duplicates existing_leads existing_combinations (lead # leads) =
     (case identity lead of
        Inl e \<Rightarrow> Inl e
      | Inr (email, company) \<Rightarrow>
          (if email \<noteq> [] \<and> company \<noteq> [] then
             (if combination email company \<notin> existing_combinations then
                (case filter_duplicates existing_leads
                        (insert (combination email company) existing_combinations) leads of
                   Inl e \<Rightarrow> Inl e
                 | Inr unique_leads \<Rightarrow> Inr (lead # unique_leads))
              else filter_duplicates existing_leads existing_combinations leads)
           else if company = [] then
             filter_duplicates existing_leads existing_combinations leads
           else
             (case existing_company_names existing_leads of
                Inl e \<Rightarrow> Inl e
              | Inr names \<Rightarrow>
                  (if company \<notin> set names then
                     (case filter_duplicates existing_leads existing_combinations leads of
                        Inl e \<Rightarrow> Inl e
                      | Inr unique_leads \<Rightarrow> Inr (lead # unique_leads))
                   else filter_duplicates existing_leads existing_combinations leads))))"

text \<open>\<open>check_duplicate_leads\<close>; \<open>existing_leads\<close> is what \<open>get_existing_leads\<close> returned (the
  empty list when the store is empty or could not be read). Every exception of the body
  is caught, and the new leads are returned as they came.\<close>

definition check_duplicate_leads :: "pydict list \<Rightarrow> pydict list \<Rightarrow> pydict list" where
  "check_duplicate_leads existing_leads new_leads =
     (if existing_leads = [] then new_leads
      else (case existing_combinations_from {} existing_leads of
              Inl e \<Rightarrow> new_leads
            | Inr existing_combinations \<Rightarrow>
                (case filter_duplicates existing_leads existing_combinations new_leads of
                   Inl e \<Rightarrow> new_leads
                 | Inr unique_leads \<Rightarrow> unique_leads)))"

section \<open>Calls to the collaborators\<close>

text \<open>
  What a batch run does to the outside world, in order: a request to the email-finder API
  (first name, last name, domain), a request to the text-generation API (for a company
  name), and \<open>time.sleep\<close> with its number of seconds.
\<close>

datatype event = EmailRequest string string string | CompletionRequest pyval | Sleep real

text \<open>What the email-finder API answers to one request: a response with its status code
  and JSON body, a \<open>requests\<close> exception, or any other fault.\<close>

datatype api_outcome = Response nat pydict | RequestException | Fault

section \<open>EmailFinder\<close>

text \<open>\<open>_extract_domain\<close> as \<open>_call_prospeo_api\<close> calls it, on the value it is given: a false
  value is answered with the empty string, and a true value that is not a string has no
  \<open>replace\<close> method.\<close>

definition domain_of_website :: "pyval \<Rightarrow> error + string" where
  "domain_of_website company_website =
     (if \<not> truthy company_website then Inr []
      else (case company_website of
              PyStr url \<Rightarrow> Inr (extract_domain url)
            | _ \<Rightarrow> Inl AttributeError))"

text \<open>\<open>_call_prospeo_api\<close>: the result and the events. An exception of \<open>_extract_domain\<close> is
  raised while the payload is built, before the request is made, and is caught there.\<close>

definition call_prospeo_api ::
  "string \<Rightarrow> string \<Rightarrow> pyval \<Rightarrow> api_outcome \<Rightarrow> pydict option \<times> event list" where
  "call_prospeo_api first_name last_name company_website outcome =
     (case domain_of_website company_website of
        Inl e \<Rightarrow> (None, [])
      | Inr d \<Rightarrow>
          (let request = EmailRequest first_name last_name d in
           case outcome of
             Response status_code data \<Rightarrow>
               (if status_code = 200 then
                  (if truthy (get data ''email'') \<and> get data ''status'' = PyStr ''VALID''
                   then (Some (map_of
                           [(''email'', get data ''email''),
                            (''confidence'', get_default data ''confidence'' (PyStr ''unknown'')),
                            (''status'', get_default data ''status'' (PyStr ''unknown'')),
                            (''source'', PyStr ''prospeo'')]), [request])
                   else (None, [request]))
                else if status_code = 429 then (None, [request, Sleep 60])
                else (None, [request]))
           | RequestException \<Rightarrow> (None, [request])
           | Fault \<Rightarrow> (None, [request])))"

text \<open>\<open>find_email\<close>: \<open>None\<close> without a request when the poster's name has fewer than two
  parts or the website is missing.\<close>

definition find_email :: "pydict \<Rightarrow> api_outcome \<Rightarrow> pydict option \<times> event list" where
  "find_email lead_data outcome =
     (let full_name = get_default lead_data ''job_poster_name'' (PyStr []) in
      if \<not> truthy full_name then (None, [])
      else (case full_name of
              PyStr s \<Rightarrow>
                (let name_parts = split s in
                 if length name_parts < 2 then (None, [])
                 else (let first_name = hd name_parts;
                           last_name = join '' '' (tl name_parts);
                           company_website = get_default lead_data ''company_website'' (PyStr [])
                       in if \<not> truthy company_website then (None, [])
                          else (case call_prospeo_api first_name last_name company_website outcome of
                                  (Some email_data, events) \<Rightarrow>
                                    (if truthy (get email_data ''email'')
                                     then (Some email_data, events) else (None, events))
                                | (None, events) \<Rightarrow> (None, events))))
            | _ \<Rightarrow> (None, [])))"

text \<open>\<open>time.sleep\<close> raises \<open>ValueError\<close> on a negative length.\<close>

definition sleep :: "real \<Rightarrow> error + event list" where
  "sleep seconds = (if seconds < 0 then Inl ValueError else Inr [Sleep seconds])"

text \<open>The body of the loop of \<open>find_emails_batch\<close> up to \<open>results.append(lead)\<close>.\<close>

definition with_email :: "pydict \<Rightarrow> pydict option \<Rightarrow> pydict" where
  "with_email lead email_data =
     (case email_data of
        Some d \<Rightarrow> lead(''email'' \<mapsto> get d ''email'',
                      ''email_confidence'' \<mapsto> get_default d ''confidence'' (PyStr ''unknown''),
                      ''email_status'' \<mapsto> get_default d ''status'' (PyStr ''unknown''))
      | None \<Rightarrow> lead(''email'' \<mapsto> PyStr [],
                    ''email_confidence'' \<mapsto> PyStr [],
                    ''email_status'' \<mapsto> PyStr ''not_found''))"

text \<open>\<open>find_emails_batch\<close>: every lead comes with the answer the API gives if it is asked
  for that lead. The result is the list of leads and the events, or the error that ends
  the run.\<close>

fun find_emails_batch ::
  "real \<Rightarrow> (pydict \<times> api_outcome) list \<Rightarrow> error + pydict list \<times> event list" where
  "find_emails_batch wait_time_between_requests [] = Inr ([], [])"
| "find_emails_batch wait_time_between_requests ((lead, outcome) # leads_data) =
     (case find_email lead outcome of
        (email_data, events) \<Rightarrow>
          (case sleep wait_time_between_requests of
             Inl e \<Rightarrow> Inl e
           | Inr pause \<Rightarrow>
               (case find_emails_batch wait_time_between_requests leads_data of
                  Inl e \<Rightarrow> Inl e
                | Inr (results, more) \<Rightarrow>
                    Inr (with_email lead email_data # results, events @ pause @ more))))"

section \<open>AIComplimentGenerator\<close>

definition fallback_compliments :: "string list" where
  "fallback_compliments =
     [''I've been following your company's growth and I'm impressed by your innovative approach.'',
      ''Your company's mission really resonates with me, and I love what you're building.'',
      ''I've heard great things about your team and the work you're doing.'',
      ''Your company's recent achievements have caught my attention, and I'm excited about your vision.'',
      ''I appreciate the innovative solutions your company is developing.'',
      ''Your company's commitment to excellence is truly inspiring.'',
      ''I've been impressed by your company's market presence and growth trajectory.'',
      ''Your company's approach to solving industry challenges is remarkable.'',
      ''I admire your company's dedication to customer success.'',
      ''Your company's culture and values really stand out in the industry.'']"

definition invalid_phrases :: "string list" where
  "invalid_phrases =
     [''I'm sorry'', ''I cannot'', ''I don't have'', ''I'm unable'', ''I cannot provide'',
      ''I don't have access'', ''I'm not able'', ''I cannot generate'',
      ''I don't have information'', ''I cannot create'']"

text \<open>\<open>_validate_compliment\<close>; \<open>count_list\<close> is \<open>str.count\<close> for one character.\<close>

definition validate_compliment :: "string \<Rightarrow> bool" where
  "validate_compliment compliment =
     (if compliment = [] then False
      else if length compliment < 20 \<or> length compliment > 300 then False
      else if list_ex (\<lambda>phrase. contains (lower compliment) (lower phrase)) invalid_phrases then False
      else if count_list compliment CHR ''!'' > 2 \<or> count_list compliment CHR ''?'' > 1 then False
      else True)"

text \<open>What the text-generation API answers to one request: one of the two errors the code
  names, any other fault, or the generated text.\<close>

datatype generation_outcome = RateLimitError | APIError | UnexpectedError | Content string

text \<open>\<open>_generate_ai_compliment\<close>. The prompt takes \<open>website_content[:4000]\<close>, which fails on
  a value that is not a string before the request is made; every exception is caught.\<close>

definition generate_ai_compliment ::
  "pyval \<Rightarrow> pyval \<Rightarrow> generation_outcome \<Rightarrow> string option \<times> event list" where
  "generate_ai_compliment company_name website_content outcome =
     (case website_content of
        PyStr content \<Rightarrow>
          (case outcome of
             Content text \<Rightarrow>
               (if validate_compliment (strip text)
                then (Some (strip text), [CompletionRequest company_name])
                else (None, [CompletionRequest company_name]))
           | _ \<Rightarrow> (None, [CompletionRequest company_name]))
      | _ \<Rightarrow> (None, []))"

text \<open>\<open>_get_fallback_compliment\<close>. \<open>random.choice\<close> draws one of the templates: the index drawn
  is an argument. \<open>len\<close> of a true value that is not a string raises \<open>TypeError\<close>.\<close>

definition get_fallback_compliment :: "nat \<Rightarrow> pyval \<Rightarrow> error + string" where
  "get_fallback_compliment choice company_name =
     (let compliment = fallback_compliments ! choice in
      if \<not> truthy company_name then Inr compliment
      else (case company_name of
              PyStr name \<Rightarrow>
                (if length name < 50
                 then Inr (replace ''Your company'' name (replace ''your company'' name compliment))
                 else Inr compliment)
            | _ \<Rightarrow> Inl TypeError))"

text \<open>\<open>generate_compliment\<close>. An exception of the fallback is caught by the handler, which
  calls the fallback again and so raises it again.\<close>

definition generate_compliment ::
  "pyval \<Rightarrow> pyval \<Rightarrow> generation_outcome \<Rightarrow> nat \<Rightarrow> (error + string) \<times> event list" where
  "generate_compliment company_name website_content outcome choice =
     (case generate_ai_compliment company_name website_content outcome of
        (Some ai_compliment, events) \<Rightarrow>
          (if ai_compliment \<noteq> [] then (Inr ai_compliment, events)
           else (get_fallback_compliment choice company_name, events))
      | (None, events) \<Rightarrow> (get_fallback_compliment choice company_name, events))"

text \<open>\<open>generate_compliments_batch\<close>: every lead comes with the answer of the API and the
  template index drawn for it. There is no \<open>time.sleep\<close> in this loop.\<close>

fun generate_compliments_batch ::
  "(pydict \<times> generation_outcome \<times> nat) list \<Rightarrow> error + pydict list \<times> event list" where
  "generate_compliments_batch [] = Inr ([], [])"
| "generate_compliments_batch ((lead, outcome, choice) # leads_data) =
     (case generate_compliment (get_default lead ''company_name'' (PyStr []))
             (get_default lead ''website_content'' (PyStr [])) outcome choice of
        (Inl e, events) \<Rightarrow> Inl e
      | (Inr compliment, events) \<Rightarrow>
          (case generate_compliments_batch leads_data of
             Inl e \<Rightarrow> Inl e
           | Inr (results, more) \<Rightarrow>
               Inr (lead(''compliment'' \<mapsto> PyStr compliment) # results, events @ more)))"

section \<open>Auxiliary notions\<close>

text \<open>The set of composite keys after the second loop of \<open>check_duplicate_leads\<close> has read
  the given leads: the state \<open>filter_duplicates\<close> passes on.\<close>

fun combinations_after :: "string set \<Rightarrow> pydict list \<Rightarrow> string set" where
  "combinations_after existing_combinations [] = existing_combinations"
| "combinations_after existing_combinations (lead # leads) =
     (case identity lead of
        Inl e \<Rightarrow> existing_combinations
      | Inr (email, company) \<Rightarrow>
          combinations_after
            (if email \<noteq> [] \<and> company \<noteq> []
             then insert (combination email company) existing_combinations
             else existing_combinations) leads)"

text \<open>The pacing contract on a sequence of events: after a request to a collaborator, no
  other request is made before a \<open>time.sleep\<close> of at least the configured interval. The flag
  says that a request has been made and not yet been followed by such a wait.\<close>

fun paced_from :: "real \<Rightarrow> bool \<Rightarrow> event list \<Rightarrow> bool" where
  "paced_from interval pending [] = True"
| "paced_from interval pending (Sleep seconds # events) =
     paced_from interval (pending \<and> seconds < interval) events"
| "paced_from interval pending (EmailRequest first_name last_name d # events) =
     (\<not> pending \<and> paced_from interval True events)"
| "paced_from interval pending (CompletionRequest company_name # events) =
     (\<not> pending \<and> paced_from interval True events)"

definition paced :: "real \<Rightarrow> event list \<Rightarrow> bool" where
  "paced interval events = paced_from interval False events"

section \<open>Example records\<close>

text \<open>A record of the persisted store, or a lead, with an email and a company name.\<close>

definition lead_of :: "string \<Rightarrow> string \<Rightarrow> pydict" where
  "lead_of email company_name =
     map_of [(''email'', PyStr email), (''company_name'', PyStr company_name)]"

text \<open>A posting as the scraper delivers it.\<close>

definition posting ::
  "pyval \<Rightarrow> string \<Rightarrow> string \<Rightarrow> string \<Rightarrow> string \<Rightarrow> pydict" where
  "posting employee_count company_name job_poster_name company_website company_linkedin_url =
     map_of [(''employee_count'', employee_count),
             (''company_name'', PyStr company_name),
             (''job_poster_name'', PyStr job_poster_name),
             (''company_website'', PyStr company_website),
             (''company_linkedin_url'', PyStr company_linkedin_url)]"

definition acme_posting :: pydict where
  "acme_posting = posting (PyStr ''250-500 employees'') ''Acme Solutions Inc'' ''John Smith''
     ''https://www.acme.com/careers'' ''https://www.linkedin.com/company/acme''"

definition tech_posting :: pydict where
  "tech_posting = posting (PyInt 500) ''Tech Solutions Inc'' ''Jane Doe''
     ''https://www.techsolutions.com'' ''https://www.linkedin.com/company/tech-solutions''"

text \<open>A lead as the email stage and the compliment stage read it.\<close>

definition contact :: "string \<Rightarrow> string \<Rightarrow> string \<Rightarrow> pydict" where
  "contact job_poster_name company_name company_website =
     map_of [(''job_poster_name'', PyStr job_poster_name),
             (''company_name'', PyStr company_name),
             (''company_website'', PyStr company_website),
             (''website_content'', PyStr ''We build rockets.'')]"

text \<open>The two postings as \<open>_clean_company_names\<close> leaves them.\<close>

definition acme_cleaned :: pydict where
  "acme_cleaned = acme_posting(''company_name_cleaned'' \<mapsto> PyStr ''Acme'',
     ''company_name_original'' \<mapsto> PyStr ''Acme Solutions Inc'')"

definition tech_cleaned :: pydict where
  "tech_cleaned = tech_posting(''company_name_cleaned'' \<mapsto> PyStr [],
     ''company_name_original'' \<mapsto> PyStr ''Tech Solutions Inc'')"

text \<open>Several fields of a record, read with \<open>get\<close>.\<close>

definition fields :: "string list \<Rightarrow> pydict \<Rightarrow> pyval list" where
  "fields keys d = map (get d) keys"

section \<open>Domain extraction in the two modules\<close>

text \<open>
  Claim C7: the Normalizer's \<open>extract_domain_from_url\<close> and the email stage's
  \<open>_extract_domain\<close> return the same domain for every URL. They do not: the email stage
  removes \<open>www.\<close> wherever it occurs, not only as a prefix. On the URL below the Normalizer
  answers \<open>awww.com\<close> and the email stage \<open>acom\<close>.
\<close>

theorem extract_domain_disagree:
  "extract_domain_from_url ''https://awww.com/jobs'' = ''awww.com''
   \<and> extract_domain ''https://awww.com/jobs'' = ''acom''"
  by (simp add: extract_domain_from_url_def extract_domain_def sub_scheme_def sub_www_def
      before_slash_def replace_def)

section \<open>Deduplication against the persisted store\<close>

lemma identity_company:
  "identity l = Inr (e, c) \<Longrightarrow> get_lower l ''company_name'' = Inr c"
  by (auto simp: identity_def split: sum.splits)

text \<open>The set built by the first loop, from the keys of the stored records.\<close>

lemma existing_combinations_from_eq:
  "map identity existing = map Inr ids \<Longrightarrow>
   existing_combinations_from acc existing
     = Inr (acc \<union> (\<lambda>(e, c). combination e c) ` set (filter (\<lambda>(e, c). e \<noteq> [] \<and> c \<noteq> []) ids))"
proof (induction existing arbitrary: acc ids)
  case Nil
  then show ?case by simp
next
  case (Cons l ls)
  then obtain p ps where ids: "ids = p # ps" and p: "identity l = Inr p"
    and ps: "map identity ls = map Inr ps"
    by (cases ids) auto
  obtain e c where ec: "p = (e, c)" by (cases p)
  show ?case
    using Cons.IH [OF ps] by (auto simp: ids p ec)
qed

lemma existing_company_names_eq:
  "map identity existing = map Inr ids \<Longrightarrow> existing_company_names existing = Inr (map snd ids)"
proof (induction existing arbitrary: ids)
  case Nil
  then show ?case by simp
next
  case (Cons l ls)
  then obtain p ps where ids: "ids = p # ps" and p: "identity l = Inr p"
    and ps: "map identity ls = map Inr ps"
    by (cases ids) auto
  obtain e c where ec: "p = (e, c)" by (cases p)
  show ?case
    using Cons.IH [OF ps] identity_company [of l e c] by (simp add: ids p ec)
qed

lemma stored_ids: "map identity [lead_of ''a@x.com'' ''Acme''] = map Inr [(''a@x.com'', ''acme'')]"
  by code_simp

text \<open>The second loop on a batch in two parts: the second part is filtered from the state
  the first part leaves.\<close>

lemma filter_duplicates_append:
  assumes "existing_company_names existing = Inr names"
  shows "list_all (\<lambda>l. \<not> isl (identity l)) xs \<Longrightarrow>
   \<exists>r. filter_duplicates existing S xs = Inr r
     \<and> filter_duplicates existing S (xs @ rest)
        = map_sum id ((@) r) (filter_duplicates existing (combinations_after S xs) rest)"
proof (induction xs arbitrary: S)
  case Nil
  show ?case
    by (cases "filter_duplicates existing S rest") auto
next
  case (Cons l ls)
  then obtain e c where ec: "identity l = Inr (e, c)"
    by (cases "identity l") auto
  from Cons.prems have ls: "list_all (\<lambda>l. \<not> isl (identity l)) ls"
    by simp
  show ?case
  proof (cases "e \<noteq> [] \<and> c \<noteq> [] \<and> combination e c \<notin> S")
    case True
    from Cons.IH [OF ls, of "insert (combination e c) S"] obtain r where
      r: "filter_duplicates existing (insert (combination e c) S) ls = Inr r"
      and app: "filter_duplicates existing (insert (combination e c) S) (ls @ rest)
        = map_sum id ((@) r)
            (filter_duplicates existing (combinations_after (insert (combination e c) S) ls) rest)"
      by blast
    show ?thesis
      using True
      by (cases "filter_duplicates existing (combinations_after (insert (combination e c) S) ls) rest")
        (simp_all add: ec r app)
  next
    case False
    let ?S = "if e \<noteq> [] \<and> c \<noteq> [] then insert (combination e c) S else S"
    have same: "?S = S"
      using False by auto
    from Cons.IH [OF ls, of S] obtain r where
      r: "filter_duplicates existing S ls = Inr r"
      and app: "filter_duplicates existing S (ls @ rest)
        = map_sum id ((@) r) (filter_duplicates existing (combinations_after S ls) rest)"
      by blast
    have after: "combinations_after S (l # ls) = combinations_after S ls"
      using same by (simp add: ec)
    show ?thesis
      using False
      by (cases "filter_duplicates existing (combinations_after S ls) rest")
        (auto simp add: ec r app assms after insert_absorb)
  qed
qed

lemma combinations_after_mono: "S \<subseteq> combinations_after S xs"
proof (induction xs arbitrary: S)
  case Nil
  show ?case by simp
next
  case (Cons l ls)
  show ?case
  proof (cases "identity l")
    case (Inl e)
    then show ?thesis by simp
  next
    case (Inr p)
    obtain e c where "p = (e, c)" by (cases p)
    with Inr Cons.IH [of "if e \<noteq> [] \<and> c \<noteq> [] then insert (combination e c) S else S"]
    show ?thesis by (auto split: if_splits)
  qed
qed

lemma combinations_after_append:
  "list_all (\<lambda>l. \<not> isl (identity l)) xs \<Longrightarrow>
   combinations_after S (xs @ ys) = combinations_after (combinations_after S xs) ys"
proof (induction xs arbitrary: S)
  case Nil
  show ?case by simp
next
  case (Cons l ls)
  then obtain e c where ec: "identity l = Inr (e, c)"
    by (cases "identity l") auto
  from Cons.prems have ls: "list_all (\<lambda>l. \<not> isl (identity l)) ls"
    by simp
  show ?case
    using Cons.IH [OF ls] by (simp add: ec)
qed

lemma combinations_after_seen:
  assumes "list_all (\<lambda>l. \<not> isl (identity l)) xs"
    and "identity a = Inr (e, c)" and "e \<noteq> []" and "c \<noteq> []"
  shows "combination e c \<in> combinations_after S (xs @ a # ys)"
proof -
  have "combinations_after S (xs @ a # ys)
      = combinations_after (insert (combination e c) (combinations_after S xs)) ys"
    using assms by (simp add: combinations_after_append)
  then show ?thesis
    using combinations_after_mono [of "insert (combination e c) (combinations_after S xs)" ys]
    by auto
qed

lemma identities_ex:
  "list_all (\<lambda>l. \<not> isl (identity l)) xs \<Longrightarrow> \<exists>ids. map identity xs = map Inr ids"
proof (induction xs)
  case Nil
  show ?case by simp
next
  case (Cons l ls)
  then obtain ids where ids: "map identity ls = map Inr ids"
    by auto
  from Cons.prems obtain p where "identity l = Inr p"
    by (cases "identity l") auto
  with ids have "map identity (l # ls) = map Inr (p # ids)"
    by simp
  then show ?case by blast
qed

text \<open>Records whose two keys are given have strings in both fields.\<close>

lemma identities_strings:
  "map identity xs = map Inr ps \<Longrightarrow> list_all (\<lambda>l. \<not> isl (identity l)) xs"
proof (induction xs arbitrary: ps)
  case Nil
  show ?case by simp
next
  case (Cons l ls)
  then obtain p qs where "ps = p # qs" "identity l = Inr p" "map identity ls = map Inr qs"
    by (cases ps) auto
  with Cons.IH [of qs] show ?case by simp
qed

text \<open>The state of the second loop after a part of the batch: the keys of the store and
  the keys of the leads read so far that have both fields, whether they survived or not.\<close>

lemma combinations_after_eq:
  "map identity xs = map Inr ps \<Longrightarrow>
   combinations_after S xs
     = S \<union> (\<lambda>(e, c). combination e c) ` set (filter (\<lambda>(e, c). e \<noteq> [] \<and> c \<noteq> []) ps)"
proof (induction xs arbitrary: S ps)
  case Nil
  then show ?case by simp
next
  case (Cons l ls)
  then obtain p qs where ps: "ps = p # qs" and p: "identity l = Inr p"
    and qs: "map identity ls = map Inr qs"
    by (cases ps) auto
  obtain e c where ec: "p = (e, c)" by (cases p)
  show ?case
    using Cons.IH [OF qs] by (auto simp: ps p ec)
qed

text \<open>The second loop only returns leads of the batch.\<close>

lemma filter_duplicates_subset:
  "filter_duplicates existing S xs = Inr r \<Longrightarrow> set r \<subseteq> set xs"
proof (induction xs arbitrary: S r)
  case Nil
  then show ?case by simp
next
  case (Cons l ls)
  then show ?case
    by (fastforce split: sum.splits prod.splits if_splits)
qed

text \<open>
  Claim C2, for a lead with a company name, anywhere in a batch: let the email and the
  company name of every stored record and of every lead of the batch be strings, \<open>ids\<close>
  being the lower-cased pairs of the stored records and \<open>before\<close> those of the leads that
  come earlier in the batch. A lead with the lower-cased email \<open>email\<close> and the non-empty
  lower-cased company name \<open>company\<close> is suppressed if and only if it has an email and its
  composite key is the key of a stored record that has both fields or, the store being
  non-empty, of an earlier lead of the batch that has both fields, or it has no email and
  its company name is the company name of a stored record. A suppressed lead leaves no
  trace: the pass returns what it returns on the batch without it. A lead that is not
  suppressed is returned, after what the pass returns on the earlier leads and before
  leads that come later in the batch.
\<close>

theorem store_dedup_lead:
  assumes stored: "map identity existing = map Inr ids"
    and earlier: "map identity xs = map Inr before"
    and later: "list_all (\<lambda>l. \<not> isl (identity l)) rest"
    and lead: "identity lead = Inr (email, company)"
    and company: "company \<noteq> []"
  shows "if (email \<noteq> []
            \<and> (combination email company
                  \<in> (\<lambda>(e, c). combination e c) ` set (filter (\<lambda>(e, c). e \<noteq> [] \<and> c \<noteq> []) ids)
               \<or> (existing \<noteq> []
                   \<and> combination email company
                       \<in> (\<lambda>(e, c). combination e c)
                           ` set (filter (\<lambda>(e, c). e \<noteq> [] \<and> c \<noteq> []) before))))
          \<or> (email = [] \<and> company \<in> snd ` set ids)
     then check_duplicate_leads existing (xs @ lead # rest)
            = check_duplicate_leads existing (xs @ rest)
     else (\<exists>tail. set tail \<subseteq> set rest
             \<and> check_duplicate_leads existing (xs @ lead # rest)
                 = check_duplicate_leads existing xs @ lead # tail)"
proof (cases "existing = []")
  case True
  with stored have "ids = []" by simp
  with True show ?thesis
    by (auto simp: check_duplicate_leads_def)
next
  case False
  define S where
    "S = (\<lambda>(e, c). combination e c) ` set (filter (\<lambda>(e, c). e \<noteq> [] \<and> c \<noteq> []) ids)"
  define B where
    "B = (\<lambda>(e, c). combination e c) ` set (filter (\<lambda>(e, c). e \<noteq> [] \<and> c \<noteq> []) before)"
  have combos: "existing_combinations_from {} existing = Inr S"
    using existing_combinations_from_eq [OF stored, of "{}"] by (simp add: S_def)
  have names: "existing_company_names existing = Inr (map snd ids)"
    by (rule existing_company_names_eq [OF stored])
  have xs: "list_all (\<lambda>l. \<not> isl (identity l)) xs"
    by (rule identities_strings [OF earlier])
  have state: "combinations_after S xs = S \<union> B"
    using combinations_after_eq [OF earlier, of S] by (simp add: B_def)
  have check: "check_duplicate_leads existing ys
      = (case filter_duplicates existing S ys of Inl e \<Rightarrow> ys | Inr u \<Rightarrow> u)" for ys
    using False by (simp add: check_duplicate_leads_def combos)
  obtain r where r: "filter_duplicates existing S xs = Inr r"
    using filter_duplicates_append [OF names xs, of S "[]"] by blast
  have split: "filter_duplicates existing S (xs @ ys)
      = map_sum id ((@) r) (filter_duplicates existing (S \<union> B) ys)" for ys
    using filter_duplicates_append [OF names xs, of S ys] r state by auto
  have total: "\<exists>u. filter_duplicates existing T rest = Inr u" for T
    using filter_duplicates_append [OF names later, of T "[]"] by blast
  let ?suppressed = "(email \<noteq> [] \<and> combination email company \<in> S \<union> B)
      \<or> (email = [] \<and> company \<in> snd ` set ids)"
  show ?thesis
  proof (cases ?suppressed)
    case True
    then have skip: "filter_duplicates existing (S \<union> B) (lead # rest)
        = filter_duplicates existing (S \<union> B) rest"
      using lead company names by auto
    obtain u where u: "filter_duplicates existing (S \<union> B) rest = Inr u"
      using total by blast
    have "filter_duplicates existing S (xs @ lead # rest) = Inr (r @ u)"
      unfolding split skip u by simp
    moreover have "filter_duplicates existing S (xs @ rest) = Inr (r @ u)"
      unfolding split u by simp
    ultimately have "check_duplicate_leads existing (xs @ lead # rest)
        = check_duplicate_leads existing (xs @ rest)"
      by (simp add: check)
    with True False show ?thesis
      by (auto simp: S_def B_def)
  next
    case not: False
    let ?T = "if email \<noteq> [] then insert (combination email company) (S \<union> B) else S \<union> B"
    obtain u where u: "filter_duplicates existing ?T rest = Inr u"
      using total by blast
    have keep: "filter_duplicates existing (S \<union> B) (lead # rest) = Inr (lead # u)"
      using not lead company names u by (auto split: if_splits)
    have "filter_duplicates existing S (xs @ lead # rest) = Inr (r @ lead # u)"
      unfolding split keep by simp
    then have "check_duplicate_leads existing (xs @ lead # rest)
        = check_duplicate_leads existing xs @ lead # u"
      by (simp add: check r)
    moreover have "set u \<subseteq> set rest"
      by (rule filter_duplicates_subset [OF u])
    ultimately have "\<exists>tail. set tail \<subseteq> set rest
        \<and> check_duplicate_leads existing (xs @ lead # rest)
            = check_duplicate_leads existing xs @ lead # tail"
      by blast
    with not False show ?thesis
      by (auto simp: S_def B_def)
  qed
qed

text \<open>The store of the claim, with the one record (a@x.com, Acme): a lead with the same pair
  is suppressed, a lead of the same company with another email is returned, a lead of the
  same company without an email is suppressed, and of two leads with the key of
  (b@y.com, beta), unknown to the store, the first is returned and the second suppressed.\<close>

theorem store_dedup_lead_witness:
  "check_duplicate_leads [lead_of ''a@x.com'' ''Acme''] [lead_of ''a@x.com'' ''Acme''] = []
   \<and> check_duplicate_leads [lead_of ''a@x.com'' ''Acme''] [lead_of ''b@y.com'' ''Acme'']
       = [lead_of ''b@y.com'' ''Acme'']
   \<and> check_duplicate_leads [lead_of ''a@x.com'' ''Acme''] [lead_of [] ''Acme''] = []
   \<and> check_duplicate_leads [lead_of ''a@x.com'' ''Acme'']
        [lead_of ''b@y.com'' ''Beta'', lead_of ''B@Y.com'' ''BETA'']
       = [lead_of ''b@y.com'' ''Beta'']"
proof -
  have no_leads: "map identity [] = map Inr []"
    by simp
  have first: "map identity [lead_of ''b@y.com'' ''Beta''] = map Inr [(''b@y.com'', ''beta'')]"
    by code_simp
  have no_rest: "list_all (\<lambda>l. \<not> isl (identity l)) []"
    by simp
  have same: "identity (lead_of ''a@x.com'' ''Acme'') = Inr (''a@x.com'', ''acme'')"
    by code_simp
  have other: "identity (lead_of ''b@y.com'' ''Acme'') = Inr (''b@y.com'', ''acme'')"
    by code_simp
  have none: "identity (lead_of [] ''Acme'') = Inr ([], ''acme'')"
    by code_simp
  have second: "identity (lead_of ''B@Y.com'' ''BETA'') = Inr (''b@y.com'', ''beta'')"
    by code_simp
  have acme: "''acme'' \<noteq> []" and beta: "''beta'' \<noteq> []"
    by simp_all
  have empty_batch: "check_duplicate_leads [lead_of ''a@x.com'' ''Acme''] [] = []"
    by code_simp
  have one: "check_duplicate_leads [lead_of ''a@x.com'' ''Acme''] [lead_of ''b@y.com'' ''Beta'']
      = [lead_of ''b@y.com'' ''Beta'']"
    using store_dedup_lead [OF stored_ids no_leads no_rest first [simplified] beta]
    by (simp add: combination_def empty_batch)
  show ?thesis
    using store_dedup_lead [OF stored_ids no_leads no_rest same acme]
      store_dedup_lead [OF stored_ids no_leads no_rest other acme]
      store_dedup_lead [OF stored_ids no_leads no_rest none acme]
      store_dedup_lead [OF stored_ids first no_rest second beta]
    by (simp add: combination_def empty_batch one)
qed

text \<open>
  Claim C2 as stated, for every lead, fails twice against the store with the one record
  (a@x.com, Acme). The lead with neither email nor company name is suppressed although its
  composite key is not in the set of existing keys and its company name is not among the
  existing names. Of two leads (b@y.com, Beta) in one batch only one is returned, although
  their composite key is not in the set of existing keys.
\<close>

theorem store_dedup_not_as_claimed:
  "existing_combinations_from {} [lead_of ''a@x.com'' ''Acme''] = Inr {''a@x.com_acme''}
   \<and> existing_company_names [lead_of ''a@x.com'' ''Acme''] = Inr [''acme'']
   \<and> identity (lead_of [] []) = Inr ([], [])
   \<and> combination [] [] \<notin> {''a@x.com_acme''}
   \<and> [] \<notin> set [''acme'']
   \<and> check_duplicate_leads [lead_of ''a@x.com'' ''Acme''] [lead_of [] []] = []
   \<and> identity (lead_of ''b@y.com'' ''Beta'') = Inr (''b@y.com'', ''beta'')
   \<and> combination ''b@y.com'' ''beta'' \<notin> {''a@x.com_acme''}
   \<and> length (check_duplicate_leads [lead_of ''a@x.com'' ''Acme'']
        [lead_of ''b@y.com'' ''Beta'', lead_of ''b@y.com'' ''Beta'']) = 1"
  by code_simp

text \<open>
  Claim C3, for leads with an email and a company name and a non-empty store: let the
  store be non-empty, and let the email and the company name of every stored record and
  of every lead of the batch be strings. If a lead \<open>b\<close> with an email and a company name
  comes after a lead \<open>a\<close> with an email and a company name and the same composite key, then
  \<open>b\<close> does not survive and leaves no trace: the pass returns what it returns on the batch
  without \<open>b\<close>, whether or not the store holds the key.
\<close>

theorem store_dedup_batch:
  assumes store: "existing \<noteq> []"
    and existing: "list_all (\<lambda>l. \<not> isl (identity l)) existing"
    and others: "list_all (\<lambda>l. \<not> isl (identity l)) (xs @ ys @ zs)"
    and a: "identity a = Inr (email, company)" "email \<noteq> []" "company \<noteq> []"
    and b: "identity b = Inr (email', company')" "email' \<noteq> []" "company' \<noteq> []"
    and same: "combination email' company' = combination email company"
  shows "check_duplicate_leads existing (xs @ a # ys @ b # zs)
    = check_duplicate_leads existing (xs @ a # ys @ zs)"
proof -
  from identities_ex [OF existing] obtain ids where ids: "map identity existing = map Inr ids"
    by blast
  define S where "S = (\<lambda>(e, c). combination e c) ` set (filter (\<lambda>(e, c). e \<noteq> [] \<and> c \<noteq> []) ids)"
  have combos: "existing_combinations_from {} existing = Inr S"
    using existing_combinations_from_eq [OF ids, of "{}"] by (simp add: S_def)
  have names: "existing_company_names existing = Inr (map snd ids)"
    by (rule existing_company_names_eq [OF ids])
  let ?pre = "xs @ a # ys"
  let ?S' = "combinations_after S ?pre"
  have pre: "list_all (\<lambda>l. \<not> isl (identity l)) ?pre"
    using others a(1) by simp
  have zs: "list_all (\<lambda>l. \<not> isl (identity l)) zs"
    using others by simp
  from filter_duplicates_append [OF names pre, of S "b # zs"] obtain r where
    r: "filter_duplicates existing S ?pre = Inr r"
    and with_b: "filter_duplicates existing S (?pre @ b # zs)
      = map_sum id ((@) r) (filter_duplicates existing ?S' (b # zs))"
    by blast
  from filter_duplicates_append [OF names pre, of S zs] r have without_b:
    "filter_duplicates existing S (?pre @ zs)
      = map_sum id ((@) r) (filter_duplicates existing ?S' zs)"
    by auto
  have seen: "combination email' company' \<in> ?S'"
    unfolding same using pre a others by (intro combinations_after_seen) auto
  have skip: "filter_duplicates existing ?S' (b # zs) = filter_duplicates existing ?S' zs"
    using seen b by simp
  from filter_duplicates_append [OF names zs, of ?S' "[]"] obtain u where
    u: "filter_duplicates existing ?S' zs = Inr u"
    by blast
  have "filter_duplicates existing S (xs @ a # ys @ b # zs) = Inr (r @ u)"
    using with_b skip u by simp
  moreover have "filter_duplicates existing S (xs @ a # ys @ zs) = Inr (r @ u)"
    using without_b u by simp
  ultimately show ?thesis
    using store by (simp add: check_duplicate_leads_def combos)
qed

text \<open>A store that holds neither lead: the second lead with the key of (b@y.com, beta) is
  dropped, the first one and the lead between them survive.\<close>

theorem store_dedup_batch_witness:
  "check_duplicate_leads [lead_of ''a@x.com'' ''Acme'']
     [lead_of ''b@y.com'' ''Beta'', lead_of '''' ''Gamma'', lead_of ''B@Y.com'' ''BETA'']
   = check_duplicate_leads [lead_of ''a@x.com'' ''Acme'']
     [lead_of ''b@y.com'' ''Beta'', lead_of '''' ''Gamma'']
   \<and> length (check_duplicate_leads [lead_of ''a@x.com'' ''Acme'']
     [lead_of ''b@y.com'' ''Beta'', lead_of '''' ''Gamma'']) = 2"
proof -
  have store: "[lead_of ''a@x.com'' ''Acme''] \<noteq> []"
    by simp
  have existing: "list_all (\<lambda>l. \<not> isl (identity l)) [lead_of ''a@x.com'' ''Acme'']"
    by code_simp
  have others: "list_all (\<lambda>l. \<not> isl (identity l)) ([] @ [lead_of '''' ''Gamma''] @ [])"
    by code_simp
  have a: "identity (lead_of ''b@y.com'' ''Beta'') = Inr (''b@y.com'', ''beta'')"
    by code_simp
  have b: "identity (lead_of ''B@Y.com'' ''BETA'') = Inr (''b@y.com'', ''beta'')"
    by code_simp
  have len: "length (check_duplicate_leads [lead_of ''a@x.com'' ''Acme'']
     [lead_of ''b@y.com'' ''Beta'', lead_of '''' ''Gamma'']) = 2"
    by code_simp
  show ?thesis
    using store_dedup_batch [where xs = "[]" and zs = "[]", OF store existing others a _ _ b] len
    by simp
qed

text \<open>
  Claim C3 as stated fails when the store is empty: the pass returns the batch as it came,
  so two leads with the same email and company name both survive.
\<close>

theorem empty_store_keeps_duplicates:
  "check_duplicate_leads [] [lead_of ''b@y.com'' ''Beta'', lead_of ''b@y.com'' ''Beta'']
   = [lead_of ''b@y.com'' ''Beta'', lead_of ''b@y.com'' ''Beta'']"
  by (simp add: check_duplicate_leads_def)

text \<open>The branch of a lead without an email adds nothing to the state: two such leads of
  the same company, unknown to the store, both survive.\<close>

lemma same_company_no_email_both_survive:
  "length (check_duplicate_leads [lead_of ''a@x.com'' ''Acme'']
     [lead_of '''' ''Gamma'', lead_of '''' ''Gamma'']) = 2"
  by code_simp

text \<open>
  Claim C10: some new lead with an email and an empty company name is dropped by
  \<open>check_duplicate_leads\<close> although it matches no existing key. With the one stored record
  (a@x.com, Acme), the lead (b@y.com, no company) has a composite key that is not in the
  set of existing keys, and the result of the pass is empty.
\<close>

theorem empty_company_dropped:
  "identity (lead_of ''b@y.com'' '''') = Inr (''b@y.com'', '''')
   \<and> existing_combinations_from {} [lead_of ''a@x.com'' ''Acme''] = Inr {''a@x.com_acme''}
   \<and> combination ''b@y.com'' '''' \<notin> {''a@x.com_acme''}
   \<and> check_duplicate_leads [lead_of ''a@x.com'' ''Acme''] [lead_of ''b@y.com'' ''''] = []"
  by code_simp

section \<open>Normalization of a posting\<close>

lemma clean_acme: "clean_company_name ''Acme Solutions Inc'' = ''Acme''"
  by code_simp

lemma clean_tech: "clean_company_name ''Tech Solutions Inc'' = []"
  by code_simp

lemma acme_normalized: "filter_and_clean 200 [acme_posting] = Inr [acme_cleaned]"
proof -
  have count: "employee_count_of acme_posting = Some 250"
    by code_simp
  have url: "get acme_posting ''company_linkedin_url''
      = PyStr ''https://www.linkedin.com/company/acme''"
    by code_simp
  have name: "get_default acme_posting ''company_name'' (PyStr []) = PyStr ''Acme Solutions Inc''"
    by code_simp
  have missing: "missing_fields acme_cleaned = []"
    by code_simp
  have 1: "filter_by_employee_count 200 [acme_posting] = [acme_posting]"
    by (simp add: count)
  have 2: "remove_duplicates [acme_posting] = [acme_posting]"
    by (simp add: remove_duplicates_def url)
  have 3: "clean_company_names [acme_posting] = Inr [acme_cleaned]"
    by (simp add: clean_job_def name clean_acme acme_cleaned_def)
  have 4: "validate_required_fields [acme_cleaned] = [acme_cleaned]"
    by (simp add: validate_required_fields_def missing)
  show ?thesis
    unfolding filter_and_clean_def 1 2 3 by (simp add: 4)
qed

lemma tech_normalized: "filter_and_clean 200 [tech_posting] = Inr [tech_cleaned]"
proof -
  have count: "employee_count_of tech_posting = Some 500"
    by code_simp
  have url: "get tech_posting ''company_linkedin_url''
      = PyStr ''https://www.linkedin.com/company/tech-solutions''"
    by code_simp
  have name: "get_default tech_posting ''company_name'' (PyStr []) = PyStr ''Tech Solutions Inc''"
    by code_simp
  have missing: "missing_fields tech_cleaned = []"
    by code_simp
  have 1: "filter_by_employee_count 200 [tech_posting] = [tech_posting]"
    by (simp add: count)
  have 2: "remove_duplicates [tech_posting] = [tech_posting]"
    by (simp add: remove_duplicates_def url)
  have 3: "clean_company_names [tech_posting] = Inr [tech_cleaned]"
    by (simp add: clean_job_def name clean_tech tech_cleaned_def)
  have 4: "validate_required_fields [tech_cleaned] = [tech_cleaned]"
    by (simp add: validate_required_fields_def missing)
  show ?thesis
    unfolding filter_and_clean_def 1 2 3 by (simp add: 4)
qed

text \<open>
  Claim C1, as the code has it: the posting with employee count "250-500 employees",
  company "Acme Solutions Inc", poster "John Smith" and website
  "https://www.acme.com/careers" passes the filter with the threshold 200, the number
  compared with the threshold being 250, the first run of digits. The lead formatted from
  it keeps the employee count as the string it came as, has the cleaned company name
  "Acme" (both "Solutions" and "Inc" are suffix tokens), the original name
  "Acme Solutions Inc", the first name "John", the last name "Smith" and the domain
  "acme.com".
\<close>

theorem acme_lead:
  "filter_and_clean 200 [acme_posting] = Inr [acme_cleaned]
   \<and> employee_count_of acme_posting = Some 250
   \<and> map_sum id (fields [''employee_count'', ''company_name'', ''company_name_original'',
          ''first_name'', ''last_name'', ''company_domain''])
        (format_lead_data acme_cleaned)
      = Inr [PyStr ''250-500 employees'', PyStr ''Acme'', PyStr ''Acme Solutions Inc'',
             PyStr ''John'', PyStr ''Smith'', PyStr ''acme.com'']"
proof -
  have "employee_count_of acme_posting = Some 250"
    by code_simp
  moreover have "map_sum id (fields [''employee_count'', ''company_name'',
          ''company_name_original'', ''first_name'', ''last_name'', ''company_domain''])
        (format_lead_data acme_cleaned)
      = Inr [PyStr ''250-500 employees'', PyStr ''Acme'', PyStr ''Acme Solutions Inc'',
             PyStr ''John'', PyStr ''Smith'', PyStr ''acme.com'']"
    by code_simp
  ultimately show ?thesis
    using acme_normalized by simp
qed

text \<open>
  Claim C1 as stated fails on that posting: the lead's employee count is not the
  integer 250, and its cleaned company name is not "Acme Solutions".
\<close>

theorem acme_lead_not_as_claimed:
  "filter_and_clean 200 [acme_posting] = Inr [acme_cleaned]
   \<and> map_sum id (fields [''employee_count'']) (format_lead_data acme_cleaned) \<noteq> Inr [PyInt 250]
   \<and> map_sum id (fields [''company_name'']) (format_lead_data acme_cleaned)
       \<noteq> Inr [PyStr ''Acme Solutions'']"
proof -
  have "map_sum id (fields [''employee_count'']) (format_lead_data acme_cleaned) \<noteq> Inr [PyInt 250]
   \<and> map_sum id (fields [''company_name'']) (format_lead_data acme_cleaned)
       \<noteq> Inr [PyStr ''Acme Solutions'']"
    by code_simp
  then show ?thesis
    using acme_normalized by simp
qed

text \<open>
  Claim C9: the posting of the company "Tech Solutions Inc", whose name is made of suffix
  tokens only, passes \<open>filter_and_clean\<close>: no required field is missing, since the validation
  reads the name as it came. The lead formatted from it has the empty string as its
  company name.
\<close>

theorem tech_lead_empty_company:
  "get tech_posting ''company_name'' = PyStr ''Tech Solutions Inc''
   \<and> filter_and_clean 200 [tech_posting] = Inr [tech_cleaned]
   \<and> missing_fields tech_cleaned = []
   \<and> map_sum id (fields [''company_name'', ''company_name_original''])
        (format_lead_data tech_cleaned) = Inr [PyStr [], PyStr ''Tech Solutions Inc'']"
proof -
  have "get tech_posting ''company_name'' = PyStr ''Tech Solutions Inc''
   \<and> missing_fields tech_cleaned = []
   \<and> map_sum id (fields [''company_name'', ''company_name_original''])
        (format_lead_data tech_cleaned) = Inr [PyStr [], PyStr ''Tech Solutions Inc'']"
    by code_simp
  then show ?thesis
    using tech_normalized by simp
qed

section \<open>The email stage\<close>

text \<open>Every way the lookup fails ends in \<open>None\<close>: whatever the collaborator does, short of
  answering with status 200, an email and the status \<open>VALID\<close>. That covers the rate-limit
  answer, every other status code, an exception of the request, any other fault, an answer
  without an email and an answer whose email is not valid.\<close>

lemma find_email_fails:
  assumes "\<not> (\<exists>d. outcome = Response 200 d \<and> truthy (get d ''email'')
             \<and> get d ''status'' = PyStr ''VALID'')"
  shows "fst (find_email lead outcome) = None"
  using assms
  by (cases outcome)
    (auto simp: find_email_def call_prospeo_api_def domain_of_website_def Let_def
      split: pyval.splits)

lemma find_emails_batch_results:
  "find_emails_batch w leads_data = Inr (results, events) \<Longrightarrow>
   results = map (\<lambda>(lead, outcome). with_email lead (fst (find_email lead outcome))) leads_data"
proof (induction leads_data arbitrary: results events)
  case Nil
  then show ?case by simp
next
  case (Cons x xs)
  obtain lead outcome where x: "x = (lead, outcome)" by (cases x)
  obtain email_data evs where fe: "find_email lead outcome = (email_data, evs)"
    by (cases "find_email lead outcome")
  from Cons.prems obtain rs more where
    rest: "find_emails_batch w xs = Inr (rs, more)" and res: "results = with_email lead email_data # rs"
    by (auto simp: x fe split: sum.splits)
  from Cons.IH [OF rest] show ?case
    by (simp add: x fe res)
qed

text \<open>
  Claim C8, as the code has it: in a run of \<open>find_emails_batch\<close> that returns, every lead is
  in the results, at its position, and a lead whose lookup fails has its email and its
  email confidence set to the empty string and its email status set to \<open>'not_found'\<close>,
  whatever the kind of the failure. The lookup fails when \<open>find_email\<close> returns \<open>None\<close>, which
  it does in particular whenever the collaborator does not answer with status 200, an
  email and the status \<open>VALID\<close>: on a rate-limit answer, on any other status code, on an
  exception of the request, on any other fault, and when no valid email was found.
\<close>

theorem find_emails_batch_failure:
  assumes "find_emails_batch w leads_data = Inr (results, events)"
    and "i < length leads_data"
    and "leads_data ! i = (lead, outcome)"
    and "fst (find_email lead outcome) = None
      \<or> \<not> (\<exists>d. outcome = Response 200 d \<and> truthy (get d ''email'')
              \<and> get d ''status'' = PyStr ''VALID'')"
  shows "length results = length leads_data
    \<and> results ! i = lead(''email'' \<mapsto> PyStr [], ''email_confidence'' \<mapsto> PyStr [],
         ''email_status'' \<mapsto> PyStr ''not_found'')"
proof -
  have "fst (find_email lead outcome) = None"
    using assms(4) find_email_fails [of outcome lead] by blast
  then show ?thesis
    using find_emails_batch_results [OF assms(1)] assms(2,3)
    by (simp add: with_email_def)
qed

text \<open>A batch of two leads: the lookup of the first ends in a server error, the second
  lead has a name of one part, so that no request is made for it.\<close>

theorem find_emails_batch_failure_witness:
  "find_emails_batch 1
     [(contact ''John Smith'' ''Acme'' ''https://www.acme.com'', Response 500 Map.empty),
      (contact ''Jane'' ''Beta'' ''https://www.beta.io'', Response 200 Map.empty)]
     = Inr ([(contact ''John Smith'' ''Acme'' ''https://www.acme.com'')
               (''email'' \<mapsto> PyStr [], ''email_confidence'' \<mapsto> PyStr [],
                ''email_status'' \<mapsto> PyStr ''not_found''),
             (contact ''Jane'' ''Beta'' ''https://www.beta.io'')
               (''email'' \<mapsto> PyStr [], ''email_confidence'' \<mapsto> PyStr [],
                ''email_status'' \<mapsto> PyStr ''not_found'')],
            [EmailRequest ''John'' ''Smith'' ''acme.com'', Sleep 1, Sleep 1])"
proof -
  let ?john = "contact ''John Smith'' ''Acme'' ''https://www.acme.com''"
  let ?jane = "contact ''Jane'' ''Beta'' ''https://www.beta.io''"
  have parts: "split ''John Smith'' = [''John'', ''Smith'']" "split ''Jane'' = [''Jane'']"
    by code_simp+
  have domain: "extract_domain ''https://www.acme.com'' = ''acme.com''"
    by code_simp
  have john: "find_email ?john (Response 500 Map.empty)
      = (None, [EmailRequest ''John'' ''Smith'' ''acme.com''])"
    by (simp add: find_email_def call_prospeo_api_def domain_of_website_def contact_def
        get_default_def parts domain)
  have jane: "find_email ?jane (Response 200 Map.empty) = (None, [])"
    by (simp add: find_email_def contact_def get_default_def parts)
  have run: "find_emails_batch 1
      [(?john, Response 500 Map.empty), (?jane, Response 200 Map.empty)]
     = Inr ([with_email ?john None, with_email ?jane None],
            [EmailRequest ''John'' ''Smith'' ''acme.com'', Sleep 1, Sleep 1])"
    by (simp add: john jane sleep_def)
  have first: "(0::nat) < length [(?john, Response 500 Map.empty), (?jane, Response 200 Map.empty)]"
    and second: "(1::nat) < length [(?john, Response 500 Map.empty), (?jane, Response 200 Map.empty)]"
    by simp_all
  have at_first: "[(?john, Response 500 Map.empty), (?jane, Response 200 Map.empty)] ! 0
      = (?john, Response 500 Map.empty)"
    and at_second: "[(?john, Response 500 Map.empty), (?jane, Response 200 Map.empty)] ! 1
      = (?jane, Response 200 Map.empty)"
    by simp_all
  have server_error: "fst (find_email ?john (Response 500 Map.empty)) = None
      \<or> \<not> (\<exists>d. Response 500 Map.empty = Response 200 d \<and> truthy (get d ''email'')
              \<and> get d ''status'' = PyStr ''VALID'')"
    by simp
  have no_request: "fst (find_email ?jane (Response 200 Map.empty)) = None
      \<or> \<not> (\<exists>d. Response 200 Map.empty = Response 200 d \<and> truthy (get d ''email'')
              \<and> get d ''status'' = PyStr ''VALID'')"
    by (simp add: jane)
  show ?thesis
    using find_emails_batch_failure [OF run first at_first server_error]
      find_emails_batch_failure [OF run second at_second no_request] run
    by simp
qed

text \<open>
  Claim C8 as stated fails on a rate-limit answer: the status written is \<open>'not_found'\<close>, not
  \<open>'rate_limited'\<close>.
\<close>

theorem rate_limit_reported_not_found:
  "map_sum id (\<lambda>(results, events). map (fields [''email'', ''email_status'']) results)
     (find_emails_batch 1
        [(contact ''John Smith'' ''Acme'' ''https://www.acme.com'', Response 429 Map.empty)])
   = Inr [[PyStr [], PyStr ''not_found'']]"
  by code_simp

section \<open>Pacing of the batch runs\<close>

text \<open>One lookup makes at most one request, followed by the pause of one minute when the
  answer is a rate-limit answer.\<close>
lemma find_email_events:
  "snd (find_email lead outcome) = []
   \<or> (\<exists>f l d. snd (find_email lead outcome) = [EmailRequest f l d])
   \<or> (\<exists>f l d. snd (find_email lead outcome) = [EmailRequest f l d, Sleep 60])"
  by (auto simp: find_email_def call_prospeo_api_def domain_of_website_def Let_def
      split: pyval.splits api_outcome.splits option.splits prod.splits if_splits)

lemma paced_from_lookup:
  assumes "evs = [] \<or> (\<exists>f l d. evs = [EmailRequest f l d])
     \<or> (\<exists>f l d. evs = [EmailRequest f l d, Sleep 60])"
  shows "paced_from w False (evs @ Sleep w # more) = paced_from w False more"
  using assms by auto

text \<open>The email stage keeps the pacing contract: every run of \<open>find_emails_batch\<close> that
  returns sleeps the configured interval after every lead, so no two requests follow each
  other without it.\<close>

lemma find_emails_batch_paced:
  "find_emails_batch w leads_data = Inr (results, events) \<Longrightarrow> paced w events"
  unfolding paced_def
proof (induction leads_data arbitrary: results events)
  case Nil
  then show ?case by simp
next
  case (Cons x xs)
  obtain lead outcome where x: "x = (lead, outcome)" by (cases x)
  obtain email_data evs where fe: "find_email lead outcome = (email_data, evs)"
    by (cases "find_email lead outcome")
  from Cons.prems obtain rs more where
    rest: "find_emails_batch w xs = Inr (rs, more)" and ev: "events = evs @ Sleep w # more"
    by (auto simp: x fe sleep_def split: sum.splits if_splits)
  have "paced_from w False more"
    by (rule Cons.IH [OF rest])
  moreover have "paced_from w False (evs @ Sleep w # more) = paced_from w False more"
    using find_email_events [of lead outcome] by (intro paced_from_lookup) (simp add: fe)
  ultimately show ?case
    by (simp add: ev)
qed

text \<open>
  Claim C4: in the email stage and in the compliment stage alike, the runner waits the
  configured interval after every record. The compliment stage does not: on a batch of two
  leads \<open>generate_compliments_batch\<close> makes its two requests to the text-generation API one
  after the other, with no wait between them.
\<close>

theorem compliments_batch_not_paced:
  "map_sum id snd (generate_compliments_batch
      [(contact ''John Smith'' ''Acme'' ''https://www.acme.com'', RateLimitError, 4),
       (contact ''Jane Doe'' ''Beta'' ''https://www.beta.io'', APIError, 5)])
    = Inr [CompletionRequest (PyStr ''Acme''), CompletionRequest (PyStr ''Beta'')]
   \<and> \<not> paced 1 [CompletionRequest (PyStr ''Acme''), CompletionRequest (PyStr ''Beta'')]"
  by code_simp

section \<open>The compliment stage\<close>




text \<open>
  Claim C6, that two invocations of the fallback with the same company name return the same
  compliment, fails: the template is drawn by \<open>random.choice\<close>, and two draws give two
  compliments.
\<close>

theorem fallback_draws_differ:
  "get_fallback_compliment 4 (PyStr ''Acme'')
     = Inr ''I appreciate the innovative solutions Acme is developing.''
   \<and> get_fallback_compliment 8 (PyStr ''Acme'')
     = Inr ''I admire Acme's dedication to customer success.''
   \<and> get_fallback_compliment 4 (PyStr ''Acme'') \<noteq> get_fallback_compliment 8 (PyStr ''Acme'')"
  by code_simp

text \<open>
  Claim C6, as the code has it: the selection is random. For every company name, the
  fallback path returns the personalisation of the template that \<open>random.choice\<close> draws, which
  is one of the ten templates: that template with "your company" and then "Your company"
  replaced by the company name when the name is non-empty and shorter than 50 characters,
  and the template as it is otherwise. So two invocations with the same company name
  return the same compliment when they draw the same template.
\<close>

theorem fallback_from_templates:
  assumes "choice < length fallback_compliments"
  shows "fallback_compliments ! choice \<in> set fallback_compliments
    \<and> get_fallback_compliment choice (PyStr company)
      = Inr (if company \<noteq> [] \<and> length company < 50
             then replace ''Your company'' company
                    (replace ''your company'' company (fallback_compliments ! choice))
             else fallback_compliments ! choice)"
  using nth_mem [OF assms]
  by (simp add: get_fallback_compliment_def Let_def)

text \<open>The fifth and the ninth template, for the company "Acme".\<close>

theorem fallback_from_templates_witness:
  "get_fallback_compliment 4 (PyStr ''Acme'')
     = Inr ''I appreciate the innovative solutions Acme is developing.''
   \<and> get_fallback_compliment 8 (PyStr ''Acme'')
     = Inr ''I admire Acme's dedication to customer success.''"
proof -
  have fifth: "(4::nat) < length fallback_compliments"
    and ninth: "(8::nat) < length fallback_compliments"
    by code_simp+
  have templates:
    "fallback_compliments ! 4 = ''I appreciate the innovative solutions your company is developing.''"
    "fallback_compliments ! 8 = ''I admire your company's dedication to customer success.''"
    by code_simp+
  have personalised:
    "replace ''Your company'' ''Acme'' (replace ''your company'' ''Acme''
         ''I appreciate the innovative solutions your company is developing.'')
       = ''I appreciate the innovative solutions Acme is developing.''"
    "replace ''Your company'' ''Acme'' (replace ''your company'' ''Acme''
         ''I admire your company's dedication to customer success.'')
       = ''I admire Acme's dedication to customer success.''"
    by code_simp+
  show ?thesis
    using fallback_from_templates [OF fifth, of "''Acme''"]
      fallback_from_templates [OF ninth, of "''Acme''"]
    by (simp add: templates personalised)
qed

end
